theory Spec2Isabelle
  imports Complex_Main
begin

section \<open>The optimisation models of the widgets notebook\<close>

text \<open>
  The notebook \<^verbatim>\<open>modeling1_colab.ipynb\<close> builds two models through the solver's
  Python API: \<^verbatim>\<open>m = gp.Model('widgets')\<close> and \<^verbatim>\<open>m2 = gp.Model('widgets2')\<close>.
  A model is declarative data: a list of decision variables (bounds, objective
  coefficient, type) and a list of linear constraints. The API calls the notebook
  makes (\<^verbatim>\<open>gp.Model\<close>, \<^verbatim>\<open>addVars\<close>, \<^verbatim>\<open>gp.quicksum\<close>, \<^verbatim>\<open>addConstrs\<close>) are
  embedded as functions on that data, with the defaults of the API (lower bound 0, no
  upper bound, continuous, minimisation) and with the exceptions they raise as error
  values. Numbers are exact reals.
\<close>

subsection \<open>Model data\<close>

datatype vtype = CONTINUOUS | BINARY

datatype sense = LESS_EQUAL | GREATER_EQUAL | EQUAL

text \<open>
  An exception that ends a cell. Its class (\<^verbatim>\<open>KeyError\<close> or \<^verbatim>\<open>AssertionError\<close> of the
  solver's API, \<^verbatim>\<open>KeyError\<close> of pandas) is not kept.
\<close>

datatype error = Raised

record 'k var =
  vkey :: 'k
  lb :: real
  ub :: "real option"
  obj :: real
  vtype :: vtype

type_synonym 'k linexpr = "(real \<times> 'k) list"

record 'k constr =
  cname :: string
  lhs :: "'k linexpr"
  csense :: sense
  rhs :: real

record 'k model =
  mname :: string
  vars :: "'k var list"
  constrs :: "'k constr list"

text \<open>\<^verbatim>\<open>gp.Model(name)\<close>: a model with no variable and no constraint.\<close>

definition Model :: "string \<Rightarrow> 'k model" where
  "Model nm = \<lparr>mname = nm, vars = [], constrs = []\<rparr>"

text \<open>
  \<^verbatim>\<open>addVars(*indices, obj = values)\<close>, with the keys the indices span and the values of
  a sequence that is not a \<^verbatim>\<open>dict\<close> (the notebook passes a pandas Series): one continuous
  variable per key, lower bound 0, no upper bound. The values are taken by position: the
  \<open>i\<close>-th key gets the \<open>i\<close>-th value, whatever the labels of the Series are. A key that
  occurs twice raises \<^verbatim>\<open>KeyError\<close>; a number of values other than the number of keys
  raises \<^verbatim>\<open>AssertionError\<close>.
\<close>

definition addVars :: "'k model \<Rightarrow> 'k list \<Rightarrow> real list \<Rightarrow> error + 'k model" where
  "addVars mdl ks objs =
     (if \<not> distinct ks then Inl Raised
      else if length objs \<noteq> length ks then Inl Raised
      else Inr (mdl\<lparr>vars := vars mdl @
        map (\<lambda>(k, c). \<lparr>vkey = k, lb = 0, ub = None, obj = c, vtype = CONTINUOUS\<rparr>)
          (zip ks objs)\<rparr>))"

text \<open>\<^verbatim>\<open>gp.quicksum(x[k] for k in ks)\<close>: the linear expression with coefficient 1 on each.\<close>

definition quicksum :: "'k list \<Rightarrow> 'k linexpr" where
  "quicksum ks = map (\<lambda>k. (1, k)) ks"

definition addConstrs :: "'k model \<Rightarrow> 'k constr list \<Rightarrow> 'k model" where
  "addConstrs mdl cs = mdl\<lparr>constrs := constrs mdl @ cs\<rparr>"

subsection \<open>What a solution is\<close>

text \<open>
  An assignment gives every variable a value. It is feasible when every variable is
  within its bounds and of its type, and every constraint holds; the objective value is
  the sum of coefficient times value; an optimal solution is a feasible assignment of
  least objective value.
\<close>

definition eval_expr :: "('k \<Rightarrow> real) \<Rightarrow> 'k linexpr \<Rightarrow> real" where
  "eval_expr a e = sum_list (map (\<lambda>(c, k). c * a k) e)"

definition in_bounds :: "('k \<Rightarrow> real) \<Rightarrow> 'k var \<Rightarrow> bool" where
  "in_bounds a v =
     (lb v \<le> a (vkey v) \<and>
      (case ub v of None \<Rightarrow> True | Some u \<Rightarrow> a (vkey v) \<le> u) \<and>
      (case vtype v of CONTINUOUS \<Rightarrow> True | BINARY \<Rightarrow> a (vkey v) = 0 \<or> a (vkey v) = 1))"

definition satisfies :: "('k \<Rightarrow> real) \<Rightarrow> 'k constr \<Rightarrow> bool" where
  "satisfies a c =
     (case csense c of
        LESS_EQUAL \<Rightarrow> eval_expr a (lhs c) \<le> rhs c
      | GREATER_EQUAL \<Rightarrow> rhs c \<le> eval_expr a (lhs c)
      | EQUAL \<Rightarrow> eval_expr a (lhs c) = rhs c)"

definition feasible :: "'k model \<Rightarrow> ('k \<Rightarrow> real) \<Rightarrow> bool" where
  "feasible mdl a = (list_all (in_bounds a) (vars mdl) \<and> list_all (satisfies a) (constrs mdl))"

definition obj_value :: "'k model \<Rightarrow> ('k \<Rightarrow> real) \<Rightarrow> real" where
  "obj_value mdl a = sum_list (map (\<lambda>v. obj v * a (vkey v)) (vars mdl))"

definition optimal :: "'k model \<Rightarrow> ('k \<Rightarrow> real) \<Rightarrow> bool" where
  "optimal mdl a = (feasible mdl a \<and> (\<forall>b. feasible mdl b \<longrightarrow> obj_value mdl a \<le> obj_value mdl b))"

subsection \<open>The notebook's data\<close>

text \<open>
  The values the notebook's cells bind before any model is built. \<open>max_prod\<close> and
  \<open>n_demand\<close> are pandas Series read by label, each label once in the index: a partial
  map from the labels to the values, where reading a label outside the index raises
  \<^verbatim>\<open>KeyError\<close>.
  \<open>transp_cost\<close> is the Series read from \<^verbatim>\<open>cost.csv\<close>, indexed by the pair of facility
  and location: its rows in the order of the file, each a label and a value, since
  \<^verbatim>\<open>addVars\<close> reads it by position and \<^verbatim>\<open>pd.concat\<close> by label.
\<close>

record inputs =
  production :: "string list"
  distribution :: "string list"
  transp_cost :: "((string \<times> string) \<times> real) list"
  max_prod :: "string \<rightharpoonup> real"
  n_demand :: "string \<rightharpoonup> real"
  frac :: real

text \<open>\<^verbatim>\<open>pd.Series(values, index = names)\<close>, read by label.\<close>

definition Series :: "'k list \<Rightarrow> real list \<Rightarrow> 'k \<rightharpoonup> real" where
  "Series idx vals = map_of (zip idx vals)"

definition nb_production :: "string list" where
  "nb_production = [''Baltimore'', ''Cleveland'', ''Little Rock'', ''Birmingham'', ''Charleston'']"

definition nb_distribution :: "string list" where
  "nb_distribution =
     [''Columbia'', ''Indianapolis'', ''Lexington'', ''Nashville'', ''Richmond'', ''St. Louis'']"

text \<open>
  The 30 values of \<^verbatim>\<open>cost.csv\<close>, as the notebook prints them in the output of the cell
  that loads the file: pivoted, one line per production facility in alphabetical order,
  one column per distribution location.
\<close>

definition nb_cost_table :: "(string \<times> real list) list" where
  "nb_cost_table =
     [(''Baltimore'',   [4.50, 5.09, 4.33, 5.96, 1.96, 7.30]),
      (''Birmingham'',  [3.33, 4.33, 3.38, 1.53, 5.95, 4.01]),
      (''Charleston'',  [3.02, 2.61, 1.61, 4.44, 2.36, 4.60]),
      (''Cleveland'',   [2.43, 2.37, 2.54, 4.13, 3.20, 4.88]),
      (''Little Rock'', [6.42, 4.83, 3.39, 4.40, 7.44, 2.92])]"

text \<open>The rows of the cost Series when the file lists the facilities in the order \<open>ps\<close>.\<close>

definition cost_rows :: "string list \<Rightarrow> ((string \<times> string) \<times> real) list" where
  "cost_rows ps =
     concat (map (\<lambda>p. case map_of nb_cost_table p of
                         Some cs \<Rightarrow> map (\<lambda>(d, c). ((p, d), c)) (zip nb_distribution cs)
                       | None \<Rightarrow> []) ps)"

text \<open>
  The notebook's data. The printed table is pivoted and does not show the order of the
  rows in the file; here the file lists the pairs in the order of \<open>production\<close> and
  \<open>distribution\<close>, the order in which \<^verbatim>\<open>addVars\<close> creates the variables, so that each
  variable gets the cost of its own pair.
\<close>

definition notebook :: inputs where
  "notebook =
     \<lparr>production = nb_production,
      distribution = nb_distribution,
      transp_cost = cost_rows nb_production,
      max_prod = Series nb_production [180, 200, 140, 80, 180],
      n_demand = Series nb_distribution [89, 95, 121, 101, 116, 181],
      frac = 0.75\<rparr>"

text \<open>The same data with the rows of the file in the alphabetical order of the printed table.\<close>

definition nb_alphabetical :: inputs where
  "nb_alphabetical = notebook\<lparr>transp_cost := cost_rows (map fst nb_cost_table)\<rparr>"

subsection \<open>The two models\<close>

text \<open>
  The first model. Each of the cells that could add its variables, constraints and
  objective holds \<^verbatim>\<open>m = gp.Model('widgets')\<close> alone or is empty, so when
  \<^verbatim>\<open>m.optimize()\<close> runs, \<open>m\<close> is the model the constructor returned, whatever the data.
\<close>

definition model_m :: "inputs \<Rightarrow> (string \<times> string) model" where
  "model_m inp = Model ''widgets''"

text \<open>
  The constraints of
  \<^verbatim>\<open>(gp.quicksum(x[p,d] for p in production) >= n_demand[d] for d in distribution)\<close>,
  one location after the other; \<^verbatim>\<open>n_demand[d]\<close> raises \<^verbatim>\<open>KeyError\<close> at a location that is
  not a label of \<open>n_demand\<close>.
\<close>

fun demand_constrs ::
  "string list \<Rightarrow> (string \<rightharpoonup> real) \<Rightarrow> string list \<Rightarrow> error + (string \<times> string) constr list" where
  "demand_constrs ps nd [] = Inr []"
| "demand_constrs ps nd (d # ds) =
     (case nd d of
        None \<Rightarrow> Inl Raised
      | Some v \<Rightarrow>
          (case demand_constrs ps nd ds of
             Inl e \<Rightarrow> Inl e
           | Inr cs \<Rightarrow>
               Inr (\<lparr>cname = ''meet_demand'', lhs = quicksum (map (\<lambda>p. (p, d)) ps),
                     csense = GREATER_EQUAL, rhs = v\<rparr> # cs)))"

definition meet_demand :: "inputs \<Rightarrow> error + (string \<times> string) constr list" where
  "meet_demand inp = demand_constrs (production inp) (n_demand inp) (distribution inp)"

text \<open>
  The cell that builds the second model:
  \<^verbatim>\<open>m2 = gp.Model('widgets2')\<close>,
  \<^verbatim>\<open>x = m2.addVars(production, distribution, obj = transp_cost, name = 'prod_ship')\<close>,
  \<^verbatim>\<open>meet_demand = m2.addConstrs((gp.quicksum(x[p,d] for p in production) >= n_demand[d]
     for d in distribution), name = 'meet_demand')\<close>.
  The cell tests none of its data itself; it fails where \<^verbatim>\<open>addVars\<close> or \<^verbatim>\<open>n_demand[d]\<close>
  raises. The cells after it (production limits, \<open>xprod\<close>, the Birmingham constraints,
  the at-most-one constraint) are empty, so its result is the model \<^verbatim>\<open>m2.optimize()\<close>
  receives.
\<close>

definition build_m2 :: "inputs \<Rightarrow> error + (string \<times> string) model" where
  "build_m2 inp =
     (case addVars (Model ''widgets2'') (List.product (production inp) (distribution inp))
             (map snd (transp_cost inp)) of
        Inl e \<Rightarrow> Inl e
      | Inr m2 \<Rightarrow>
          (case meet_demand inp of
             Inl e \<Rightarrow> Inl e
           | Inr cs \<Rightarrow> Inr (addConstrs m2 cs)))"

text \<open>The model \<open>m2\<close>, where the cell has built it.\<close>

definition model_m2 :: "inputs \<Rightarrow> (string \<times> string) model" where
  "model_m2 inp = projr (build_m2 inp)"

subsection \<open>Extracting the solution\<close>

text \<open>
  \<^verbatim>\<open>x2_values = pd.Series(m2.getAttr('X', x), name = "shipment", index = transp_cost.index)\<close>
  reads the value of \<open>x\<close> at each label of the cost Series, and has no value (NaN) at a
  label that is no key of \<open>x\<close>. \<^verbatim>\<open>sol2 = pd.concat([transp_cost, x2_values], axis=1)\<close>
  puts cost and shipment of the same label in one row. \<^verbatim>\<open>sol2[sol2.shipment > 0]\<close>
  keeps the rows with a positive shipment. The cost recomputed from such rows is the sum
  of cost times shipment over them.
\<close>

definition sol2 ::
  "inputs \<Rightarrow> (string \<times> string \<Rightarrow> real) \<Rightarrow> ((string \<times> string) \<times> real \<times> real option) list" where
  "sol2 inp a =
     map (\<lambda>(k, c). (k, c,
            if k \<in> set (List.product (production inp) (distribution inp)) then Some (a k)
            else None))
       (transp_cost inp)"

definition shipped ::
  "((string \<times> string) \<times> real \<times> real option) list \<Rightarrow> ((string \<times> string) \<times> real \<times> real) list" where
  "shipped sol =
     List.map_filter
       (\<lambda>(k, c, s). case s of Some v \<Rightarrow> (if 0 < v then Some (k, c, v) else None) | None \<Rightarrow> None)
       sol"

definition recomputed_cost :: "((string \<times> string) \<times> real \<times> real) list \<Rightarrow> real" where
  "recomputed_cost rows = sum_list (map (\<lambda>(k, c, s). c * s) rows)"


subsection \<open>The formulation with production limits\<close>

text \<open>
  Modelled from the spec: a production facility record carries its capacity, a
  distribution location record its demand, and a cost belongs to each pair. They are
  read from the notebook's Series by label; the value 0 stands for a record the data
  does not hold.
\<close>

definition capacity :: "inputs \<Rightarrow> string \<Rightarrow> real" where
  "capacity inp p = (case max_prod inp p of Some v \<Rightarrow> v | None \<Rightarrow> 0)"

text \<open>Modelled from the spec: see \<open>capacity\<close>.\<close>

definition demand :: "inputs \<Rightarrow> string \<Rightarrow> real" where
  "demand inp d = (case n_demand inp d of Some v \<Rightarrow> v | None \<Rightarrow> 0)"

text \<open>Modelled from the spec: see \<open>capacity\<close>.\<close>

definition cost :: "inputs \<Rightarrow> string \<times> string \<Rightarrow> real" where
  "cost inp k = (case map_of (transp_cost inp) k of Some c \<Rightarrow> c | None \<Rightarrow> 0)"

text \<open>
  Modelled from the spec: the "shipment variables indexed by (facility, location)" of
  \<^verbatim>\<open>build_base_model\<close>, non-negative and continuous, each with the cost of its pair in
  the objective "minimizing \<open>\<Sum>\<close> cost \<open>\<times>\<close> shipment".
\<close>

definition shipment_vars :: "inputs \<Rightarrow> (string \<times> string) var list" where
  "shipment_vars inp =
     map (\<lambda>k. \<lparr>vkey = k, lb = 0, ub = None, obj = cost inp k, vtype = CONTINUOUS\<rparr>)
       (List.product (production inp) (distribution inp))"

text \<open>
  Modelled from the spec: the "demand constraints (one per location: sum over facilities
  \<open>\<ge>\<close> demand)" of \<^verbatim>\<open>build_base_model\<close>.
\<close>

definition demand_met :: "inputs \<Rightarrow> (string \<times> string) constr list" where
  "demand_met inp =
     map (\<lambda>d. \<lparr>cname = ''meet_demand'', lhs = quicksum (map (\<lambda>p. (p, d)) (production inp)),
               csense = GREATER_EQUAL, rhs = demand inp d\<rparr>)
       (distribution inp)"

text \<open>
  Modelled from the spec: the capacity constraints of \<^verbatim>\<open>build_base_model\<close>, "two per
  facility: sum over locations \<open>\<le>\<close> max, sum over locations \<open>\<ge>\<close> frac \<open>\<times>\<close> max". The
  notebook names them \<open>can_produce\<close> and \<open>must_produce\<close> and reads
  \<^verbatim>\<open>can_produce[p].Slack\<close>, but the cell that should add them is empty.
\<close>

definition can_produce :: "inputs \<Rightarrow> (string \<times> string) constr list" where
  "can_produce inp =
     map (\<lambda>p. \<lparr>cname = ''can_produce'', lhs = quicksum (map (\<lambda>d. (p, d)) (distribution inp)),
               csense = LESS_EQUAL, rhs = capacity inp p\<rparr>)
       (production inp)"

text \<open>Modelled from the spec: see \<open>can_produce\<close>; the lower limit is \<open>frac \<times> max\<close>.\<close>

definition must_produce :: "inputs \<Rightarrow> (string \<times> string) constr list" where
  "must_produce inp =
     map (\<lambda>p. \<lparr>cname = ''must_produce'', lhs = quicksum (map (\<lambda>d. (p, d)) (distribution inp)),
               csense = GREATER_EQUAL, rhs = frac inp * capacity inp p\<rparr>)
       (production inp)"

text \<open>
  Modelled from the spec: \<^verbatim>\<open>build_base_model(facilities, locations, costs, frac)\<close>,
  "shipment variables indexed by (facility, location), demand constraints, capacity
  constraints, and an objective minimizing \<open>\<Sum>\<close> cost \<open>\<times>\<close> shipment". No cell of the
  notebook builds this model.
\<close>

definition build_base_model :: "inputs \<Rightarrow> (string \<times> string) model" where
  "build_base_model inp =
     \<lparr>mname = ''widgets'', vars = shipment_vars inp,
      constrs = demand_met inp @ can_produce inp @ must_produce inp\<rparr>"

subsection \<open>Concrete inputs and shipment plans\<close>



text \<open>A plan given by its non-zero entries.\<close>

definition plan :: "('k \<times> real) list \<Rightarrow> 'k \<Rightarrow> real" where
  "plan rows k = (case map_of rows k of Some v \<Rightarrow> v | None \<Rightarrow> 0)"

text \<open>Every location served by the facility that ships to it at the least cost.\<close>

definition nb_cheapest :: "string \<times> string \<Rightarrow> real" where
  "nb_cheapest =
     plan [((''Cleveland'', ''Columbia''), 89), ((''Cleveland'', ''Indianapolis''), 95),
           ((''Charleston'', ''Lexington''), 121), ((''Birmingham'', ''Nashville''), 101),
           ((''Baltimore'', ''Richmond''), 116), ((''Little Rock'', ''St. Louis''), 181)]"

text \<open>
  Every location served by the facility whose variable has the least objective
  coefficient when the rows of the file are in alphabetical order.
\<close>

definition nb_cheapest_alphabetical :: "string \<times> string \<Rightarrow> real" where
  "nb_cheapest_alphabetical =
     plan [((''Birmingham'', ''Columbia''), 89), ((''Birmingham'', ''Indianapolis''), 95),
           ((''Little Rock'', ''Lexington''), 121), ((''Cleveland'', ''Nashville''), 101),
           ((''Baltimore'', ''Richmond''), 116), ((''Charleston'', ''St. Louis''), 181)]"

text \<open>Every location served by Birmingham alone.\<close>

definition nb_birmingham_all :: "string \<times> string \<Rightarrow> real" where
  "nb_birmingham_all =
     plan [((''Birmingham'', ''Columbia''), 89), ((''Birmingham'', ''Indianapolis''), 95),
           ((''Birmingham'', ''Lexington''), 121), ((''Birmingham'', ''Nashville''), 101),
           ((''Birmingham'', ''Richmond''), 116), ((''Birmingham'', ''St. Louis''), 181)]"

text \<open>A plan that meets every demand exactly and keeps every facility within its limits.\<close>

definition nb_within_limits :: "string \<times> string \<Rightarrow> real" where
  "nb_within_limits =
     plan [((''Baltimore'', ''Columbia''), 89), ((''Baltimore'', ''Indianapolis''), 71),
           ((''Cleveland'', ''Indianapolis''), 24), ((''Cleveland'', ''Lexington''), 121),
           ((''Cleveland'', ''Nashville''), 35),
           ((''Little Rock'', ''Nashville''), 66), ((''Little Rock'', ''Richmond''), 59),
           ((''Birmingham'', ''Richmond''), 57), ((''Birmingham'', ''St. Louis''), 13),
           ((''Charleston'', ''St. Louis''), 168)]"

section \<open>The first model is empty\<close>

lemma vars_model_m: "vars (model_m inp) = []"
  by (simp add: model_m_def Model_def)

lemma constrs_model_m: "constrs (model_m inp) = []"
  by (simp add: model_m_def Model_def)

lemma feasible_model_m: "feasible (model_m inp) a"
  by (simp add: feasible_def vars_model_m constrs_model_m)

lemma obj_value_model_m: "obj_value (model_m inp) a = 0"
  by (simp add: obj_value_def vars_model_m)

lemma optimal_model_m: "optimal (model_m inp) a"
  by (simp add: optimal_def feasible_model_m obj_value_model_m)

text \<open>
  C10: the model \<open>m\<close> the notebook solves has no decision variable and no constraint,
  whatever the capacities, demands, costs and fraction are; every assignment is then an
  optimal solution and the objective value is 0, independent of the data.
\<close>

theorem model_m_empty_optimal_zero:
  "vars (model_m inp) = [] \<and> constrs (model_m inp) = [] \<and>
   optimal (model_m inp) a \<and> obj_value (model_m inp) a = 0"
  by (simp add: vars_model_m constrs_model_m optimal_def feasible_model_m obj_value_model_m)

theorem model_m_empty_optimal_zero_witness:
  "vars (model_m notebook) = [] \<and> constrs (model_m notebook) = [] \<and>
   feasible (model_m notebook) (\<lambda>k. 0) \<and> obj_value (model_m notebook) (\<lambda>k. 0) = 0"
  using model_m_empty_optimal_zero [of notebook "\<lambda>k. 0"]
  by (simp add: optimal_def)

section \<open>When the second model is built, and what it holds\<close>

lemma eval_expr_quicksum: "eval_expr a (quicksum ks) = sum_list (map a ks)"
  by (simp add: eval_expr_def quicksum_def comp_def)

lemma demand_constrs_all_labels:
  "list_all (\<lambda>d. nd d \<noteq> None) ds \<Longrightarrow>
   demand_constrs ps nd ds =
     Inr (map (\<lambda>d. \<lparr>cname = ''meet_demand'', lhs = quicksum (map (\<lambda>p. (p, d)) ps),
                    csense = GREATER_EQUAL, rhs = the (nd d)\<rparr>) ds)"
  by (induction ds) auto

lemma demand_constrs_missing_label:
  "\<not> list_all (\<lambda>d. nd d \<noteq> None) ds \<Longrightarrow> demand_constrs ps nd ds = Inl Raised"
  by (induction ds) (auto split: option.splits sum.splits simp: demand_constrs_all_labels)

lemma demand_constrs_Inr:
  "demand_constrs ps nd ds = Inr cs \<longleftrightarrow>
     list_all (\<lambda>d. nd d \<noteq> None) ds \<and>
     cs = map (\<lambda>d. \<lparr>cname = ''meet_demand'', lhs = quicksum (map (\<lambda>p. (p, d)) ps),
                    csense = GREATER_EQUAL, rhs = the (nd d)\<rparr>) ds"
proof (cases "list_all (\<lambda>d. nd d \<noteq> None) ds")
  case True
  then show ?thesis
    by (auto simp add: demand_constrs_all_labels)
next
  case False
  then show ?thesis
    by (simp add: demand_constrs_missing_label)
qed

lemma build_m2_Inr:
  "build_m2 inp = Inr mdl \<longleftrightarrow>
     distinct (List.product (production inp) (distribution inp)) \<and>
     length (transp_cost inp) = length (production inp) * length (distribution inp) \<and>
     list_all (\<lambda>d. n_demand inp d \<noteq> None) (distribution inp) \<and>
     mdl = \<lparr>mname = ''widgets2'',
            vars = map (\<lambda>(k, c). \<lparr>vkey = k, lb = 0, ub = None, obj = c, vtype = CONTINUOUS\<rparr>)
                     (zip (List.product (production inp) (distribution inp))
                        (map snd (transp_cost inp))),
            constrs = map (\<lambda>d. \<lparr>cname = ''meet_demand'',
                                lhs = quicksum (map (\<lambda>p. (p, d)) (production inp)),
                                csense = GREATER_EQUAL, rhs = the (n_demand inp d)\<rparr>)
                        (distribution inp)\<rparr>"
proof (cases "list_all (\<lambda>d. n_demand inp d \<noteq> None) (distribution inp)")
  case True
  then have "meet_demand inp =
      Inr (map (\<lambda>d. \<lparr>cname = ''meet_demand'',
                     lhs = quicksum (map (\<lambda>p. (p, d)) (production inp)),
                     csense = GREATER_EQUAL, rhs = the (n_demand inp d)\<rparr>)
             (distribution inp))"
    by (simp add: meet_demand_def demand_constrs_all_labels)
  with True show ?thesis
    by (auto simp add: build_m2_def addVars_def addConstrs_def Model_def)
next
  case False
  then have "meet_demand inp = Inl Raised"
    by (simp add: meet_demand_def demand_constrs_missing_label)
  with False show ?thesis
    by (simp add: build_m2_def split: sum.splits)
qed

lemma vars_built_m2:
  assumes "build_m2 inp = Inr mdl"
  shows "vars mdl =
         map (\<lambda>(k, c). \<lparr>vkey = k, lb = 0, ub = None, obj = c, vtype = CONTINUOUS\<rparr>)
           (zip (List.product (production inp) (distribution inp)) (map snd (transp_cost inp)))"
  using assms by (simp add: build_m2_Inr)

lemma constrs_built_m2:
  assumes "build_m2 inp = Inr mdl"
  shows "constrs mdl =
         map (\<lambda>d. \<lparr>cname = ''meet_demand'',
                   lhs = quicksum (map (\<lambda>p. (p, d)) (production inp)),
                   csense = GREATER_EQUAL, rhs = the (n_demand inp d)\<rparr>)
           (distribution inp)"
  using assms by (simp add: build_m2_Inr)

lemma in_bounds_zip_vars:
  assumes "length cs = length ks"
  shows "list_all (in_bounds a)
           (map (\<lambda>(k, c). \<lparr>vkey = k, lb = 0, ub = None, obj = c, vtype = CONTINUOUS\<rparr>) (zip ks cs))
         \<longleftrightarrow> (\<forall>k\<in>set ks. 0 \<le> a k)"
proof -
  have "list_all (in_bounds a)
           (map (\<lambda>(k, c). \<lparr>vkey = k, lb = 0, ub = None, obj = c, vtype = CONTINUOUS\<rparr>) (zip ks cs))
        \<longleftrightarrow> (\<forall>k\<in>set (map fst (zip ks cs)). 0 \<le> a k)"
    by (auto simp add: list_all_iff in_bounds_def)
  then show ?thesis
    using assms by simp
qed

lemma feasible_built_m2_iff:
  assumes "build_m2 inp = Inr mdl"
  shows "feasible mdl a \<longleftrightarrow>
     (\<forall>p\<in>set (production inp). \<forall>d\<in>set (distribution inp). 0 \<le> a (p, d)) \<and>
     (\<forall>d\<in>set (distribution inp).
        the (n_demand inp d) \<le> sum_list (map (\<lambda>p. a (p, d)) (production inp)))"
proof -
  have len: "length (map snd (transp_cost inp)) =
             length (List.product (production inp) (distribution inp))"
    using assms by (simp add: build_m2_Inr)
  show ?thesis
    unfolding feasible_def vars_built_m2 [OF assms] constrs_built_m2 [OF assms]
      in_bounds_zip_vars [OF len]
    by (auto simp add: list_all_iff satisfies_def eval_expr_quicksum comp_def)
qed

lemma build_m2_model_m2: "build_m2 inp = Inr mdl \<Longrightarrow> model_m2 inp = mdl"
  by (simp add: model_m2_def)

section \<open>The second model on the notebook's data\<close>

lemma notebook_fields:
  "production notebook = nb_production"
  "distribution notebook = nb_distribution"
  "transp_cost notebook = cost_rows nb_production"
  "max_prod notebook = Series nb_production [180, 200, 140, 80, 180]"
  "n_demand notebook = Series nb_distribution [89, 95, 121, 101, 116, 181]"
  "frac notebook = 0.75"
  by (simp_all add: notebook_def)

lemma alphabetical_fields:
  "production nb_alphabetical = nb_production"
  "distribution nb_alphabetical = nb_distribution"
  "transp_cost nb_alphabetical = cost_rows (map fst nb_cost_table)"
  "max_prod nb_alphabetical = Series nb_production [180, 200, 140, 80, 180]"
  "n_demand nb_alphabetical = Series nb_distribution [89, 95, 121, 101, 116, 181]"
  "frac nb_alphabetical = 0.75"
  by (simp_all add: nb_alphabetical_def notebook_def)

lemma build_m2_notebook: "build_m2 notebook = Inr (model_m2 notebook)"
proof -
  have "distinct (List.product (production notebook) (distribution notebook))"
    by (rule distinct_product) (simp_all add: notebook_fields alphabetical_fields nb_production_def nb_distribution_def)
  moreover have "length (transp_cost notebook) = length (production notebook) * length (distribution notebook)"
    by (simp add: notebook_fields alphabetical_fields nb_production_def nb_distribution_def cost_rows_def nb_cost_table_def Series_def)
  moreover have "list_all (\<lambda>d. n_demand notebook d \<noteq> None) (distribution notebook)"
    by (simp add: notebook_fields alphabetical_fields nb_production_def nb_distribution_def cost_rows_def nb_cost_table_def Series_def)
  ultimately have "\<exists>mdl. build_m2 notebook = Inr mdl"
    by (simp add: build_m2_Inr)
  then show ?thesis
    by (auto simp add: model_m2_def)
qed

lemma obj_value_m2_notebook:
  "obj_value (model_m2 notebook) b =
     4.50 * b (''Baltimore'', ''Columbia'') + 5.09 * b (''Baltimore'', ''Indianapolis'') + 4.33 * b (''Baltimore'', ''Lexington'') + 5.96 * b (''Baltimore'', ''Nashville'') + 1.96 * b (''Baltimore'', ''Richmond'') + 7.30 * b (''Baltimore'', ''St. Louis'') +
     2.43 * b (''Cleveland'', ''Columbia'') + 2.37 * b (''Cleveland'', ''Indianapolis'') + 2.54 * b (''Cleveland'', ''Lexington'') + 4.13 * b (''Cleveland'', ''Nashville'') + 3.20 * b (''Cleveland'', ''Richmond'') + 4.88 * b (''Cleveland'', ''St. Louis'') +
     6.42 * b (''Little Rock'', ''Columbia'') + 4.83 * b (''Little Rock'', ''Indianapolis'') + 3.39 * b (''Little Rock'', ''Lexington'') + 4.40 * b (''Little Rock'', ''Nashville'') + 7.44 * b (''Little Rock'', ''Richmond'') + 2.92 * b (''Little Rock'', ''St. Louis'') +
     3.33 * b (''Birmingham'', ''Columbia'') + 4.33 * b (''Birmingham'', ''Indianapolis'') + 3.38 * b (''Birmingham'', ''Lexington'') + 1.53 * b (''Birmingham'', ''Nashville'') + 5.95 * b (''Birmingham'', ''Richmond'') + 4.01 * b (''Birmingham'', ''St. Louis'') +
     3.02 * b (''Charleston'', ''Columbia'') + 2.61 * b (''Charleston'', ''Indianapolis'') + 1.61 * b (''Charleston'', ''Lexington'') + 4.44 * b (''Charleston'', ''Nashville'') + 2.36 * b (''Charleston'', ''Richmond'') + 4.60 * b (''Charleston'', ''St. Louis'')"
  unfolding obj_value_def vars_built_m2 [OF build_m2_notebook]
  by (simp add: notebook_fields alphabetical_fields nb_production_def nb_distribution_def cost_rows_def nb_cost_table_def Series_def)

lemma feasible_m2_notebook_nonneg:
  "feasible (model_m2 notebook) b \<Longrightarrow> p \<in> set nb_production \<Longrightarrow>
   d \<in> set nb_distribution \<Longrightarrow> 0 \<le> b (p, d)"
  by (simp add: feasible_built_m2_iff [OF build_m2_notebook] notebook_fields alphabetical_fields)

lemma demand_columbia_notebook:
  "feasible (model_m2 notebook) b \<Longrightarrow>
   89 \<le> b (''Baltimore'', ''Columbia'') + b (''Cleveland'', ''Columbia'') + b (''Little Rock'', ''Columbia'') + b (''Birmingham'', ''Columbia'') + b (''Charleston'', ''Columbia'')"
  by (simp add: feasible_built_m2_iff [OF build_m2_notebook] notebook_fields alphabetical_fields nb_production_def nb_distribution_def cost_rows_def nb_cost_table_def Series_def)

lemma demand_indianapolis_notebook:
  "feasible (model_m2 notebook) b \<Longrightarrow>
   95 \<le> b (''Baltimore'', ''Indianapolis'') + b (''Cleveland'', ''Indianapolis'') + b (''Little Rock'', ''Indianapolis'') + b (''Birmingham'', ''Indianapolis'') + b (''Charleston'', ''Indianapolis'')"
  by (simp add: feasible_built_m2_iff [OF build_m2_notebook] notebook_fields alphabetical_fields nb_production_def nb_distribution_def cost_rows_def nb_cost_table_def Series_def)

lemma demand_lexington_notebook:
  "feasible (model_m2 notebook) b \<Longrightarrow>
   121 \<le> b (''Baltimore'', ''Lexington'') + b (''Cleveland'', ''Lexington'') + b (''Little Rock'', ''Lexington'') + b (''Birmingham'', ''Lexington'') + b (''Charleston'', ''Lexington'')"
  by (simp add: feasible_built_m2_iff [OF build_m2_notebook] notebook_fields alphabetical_fields nb_production_def nb_distribution_def cost_rows_def nb_cost_table_def Series_def)

lemma demand_nashville_notebook:
  "feasible (model_m2 notebook) b \<Longrightarrow>
   101 \<le> b (''Baltimore'', ''Nashville'') + b (''Cleveland'', ''Nashville'') + b (''Little Rock'', ''Nashville'') + b (''Birmingham'', ''Nashville'') + b (''Charleston'', ''Nashville'')"
  by (simp add: feasible_built_m2_iff [OF build_m2_notebook] notebook_fields alphabetical_fields nb_production_def nb_distribution_def cost_rows_def nb_cost_table_def Series_def)

lemma demand_richmond_notebook:
  "feasible (model_m2 notebook) b \<Longrightarrow>
   116 \<le> b (''Baltimore'', ''Richmond'') + b (''Cleveland'', ''Richmond'') + b (''Little Rock'', ''Richmond'') + b (''Birmingham'', ''Richmond'') + b (''Charleston'', ''Richmond'')"
  by (simp add: feasible_built_m2_iff [OF build_m2_notebook] notebook_fields alphabetical_fields nb_production_def nb_distribution_def cost_rows_def nb_cost_table_def Series_def)

lemma demand_st_louis_notebook:
  "feasible (model_m2 notebook) b \<Longrightarrow>
   181 \<le> b (''Baltimore'', ''St. Louis'') + b (''Cleveland'', ''St. Louis'') + b (''Little Rock'', ''St. Louis'') + b (''Birmingham'', ''St. Louis'') + b (''Charleston'', ''St. Louis'')"
  by (simp add: feasible_built_m2_iff [OF build_m2_notebook] notebook_fields alphabetical_fields nb_production_def nb_distribution_def cost_rows_def nb_cost_table_def Series_def)

text \<open>The cost of serving one location is at least its demand at the least coefficient.\<close>

lemma column_cost_columbia_notebook:
  assumes "feasible (model_m2 notebook) b"
  shows "216.27 \<le> 4.50 * b (''Baltimore'', ''Columbia'') + 2.43 * b (''Cleveland'', ''Columbia'') + 6.42 * b (''Little Rock'', ''Columbia'') + 3.33 * b (''Birmingham'', ''Columbia'') + 3.02 * b (''Charleston'', ''Columbia'')"
proof -
  have "0 \<le> b (p, ''Columbia'')" if "p \<in> set nb_production" for p
    using assms that by (rule feasible_m2_notebook_nonneg) (simp add: nb_distribution_def)
  then have "0 \<le> b (''Baltimore'', ''Columbia'')" "0 \<le> b (''Cleveland'', ''Columbia'')" "0 \<le> b (''Little Rock'', ''Columbia'')" "0 \<le> b (''Birmingham'', ''Columbia'')" "0 \<le> b (''Charleston'', ''Columbia'')"
    by (simp_all add: nb_production_def)
  then show ?thesis
    using demand_columbia_notebook [OF assms] by simp
qed

lemma column_cost_indianapolis_notebook:
  assumes "feasible (model_m2 notebook) b"
  shows "225.15 \<le> 5.09 * b (''Baltimore'', ''Indianapolis'') + 2.37 * b (''Cleveland'', ''Indianapolis'') + 4.83 * b (''Little Rock'', ''Indianapolis'') + 4.33 * b (''Birmingham'', ''Indianapolis'') + 2.61 * b (''Charleston'', ''Indianapolis'')"
proof -
  have "0 \<le> b (p, ''Indianapolis'')" if "p \<in> set nb_production" for p
    using assms that by (rule feasible_m2_notebook_nonneg) (simp add: nb_distribution_def)
  then have "0 \<le> b (''Baltimore'', ''Indianapolis'')" "0 \<le> b (''Cleveland'', ''Indianapolis'')" "0 \<le> b (''Little Rock'', ''Indianapolis'')" "0 \<le> b (''Birmingham'', ''Indianapolis'')" "0 \<le> b (''Charleston'', ''Indianapolis'')"
    by (simp_all add: nb_production_def)
  then show ?thesis
    using demand_indianapolis_notebook [OF assms] by simp
qed

lemma column_cost_lexington_notebook:
  assumes "feasible (model_m2 notebook) b"
  shows "194.81 \<le> 4.33 * b (''Baltimore'', ''Lexington'') + 2.54 * b (''Cleveland'', ''Lexington'') + 3.39 * b (''Little Rock'', ''Lexington'') + 3.38 * b (''Birmingham'', ''Lexington'') + 1.61 * b (''Charleston'', ''Lexington'')"
proof -
  have "0 \<le> b (p, ''Lexington'')" if "p \<in> set nb_production" for p
    using assms that by (rule feasible_m2_notebook_nonneg) (simp add: nb_distribution_def)
  then have "0 \<le> b (''Baltimore'', ''Lexington'')" "0 \<le> b (''Cleveland'', ''Lexington'')" "0 \<le> b (''Little Rock'', ''Lexington'')" "0 \<le> b (''Birmingham'', ''Lexington'')" "0 \<le> b (''Charleston'', ''Lexington'')"
    by (simp_all add: nb_production_def)
  then show ?thesis
    using demand_lexington_notebook [OF assms] by simp
qed

lemma column_cost_nashville_notebook:
  assumes "feasible (model_m2 notebook) b"
  shows "154.53 \<le> 5.96 * b (''Baltimore'', ''Nashville'') + 4.13 * b (''Cleveland'', ''Nashville'') + 4.40 * b (''Little Rock'', ''Nashville'') + 1.53 * b (''Birmingham'', ''Nashville'') + 4.44 * b (''Charleston'', ''Nashville'')"
proof -
  have "0 \<le> b (p, ''Nashville'')" if "p \<in> set nb_production" for p
    using assms that by (rule feasible_m2_notebook_nonneg) (simp add: nb_distribution_def)
  then have "0 \<le> b (''Baltimore'', ''Nashville'')" "0 \<le> b (''Cleveland'', ''Nashville'')" "0 \<le> b (''Little Rock'', ''Nashville'')" "0 \<le> b (''Birmingham'', ''Nashville'')" "0 \<le> b (''Charleston'', ''Nashville'')"
    by (simp_all add: nb_production_def)
  then show ?thesis
    using demand_nashville_notebook [OF assms] by simp
qed

lemma column_cost_richmond_notebook:
  assumes "feasible (model_m2 notebook) b"
  shows "227.36 \<le> 1.96 * b (''Baltimore'', ''Richmond'') + 3.20 * b (''Cleveland'', ''Richmond'') + 7.44 * b (''Little Rock'', ''Richmond'') + 5.95 * b (''Birmingham'', ''Richmond'') + 2.36 * b (''Charleston'', ''Richmond'')"
proof -
  have "0 \<le> b (p, ''Richmond'')" if "p \<in> set nb_production" for p
    using assms that by (rule feasible_m2_notebook_nonneg) (simp add: nb_distribution_def)
  then have "0 \<le> b (''Baltimore'', ''Richmond'')" "0 \<le> b (''Cleveland'', ''Richmond'')" "0 \<le> b (''Little Rock'', ''Richmond'')" "0 \<le> b (''Birmingham'', ''Richmond'')" "0 \<le> b (''Charleston'', ''Richmond'')"
    by (simp_all add: nb_production_def)
  then show ?thesis
    using demand_richmond_notebook [OF assms] by simp
qed

lemma column_cost_st_louis_notebook:
  assumes "feasible (model_m2 notebook) b"
  shows "528.52 \<le> 7.30 * b (''Baltimore'', ''St. Louis'') + 4.88 * b (''Cleveland'', ''St. Louis'') + 2.92 * b (''Little Rock'', ''St. Louis'') + 4.01 * b (''Birmingham'', ''St. Louis'') + 4.60 * b (''Charleston'', ''St. Louis'')"
proof -
  have "0 \<le> b (p, ''St. Louis'')" if "p \<in> set nb_production" for p
    using assms that by (rule feasible_m2_notebook_nonneg) (simp add: nb_distribution_def)
  then have "0 \<le> b (''Baltimore'', ''St. Louis'')" "0 \<le> b (''Cleveland'', ''St. Louis'')" "0 \<le> b (''Little Rock'', ''St. Louis'')" "0 \<le> b (''Birmingham'', ''St. Louis'')" "0 \<le> b (''Charleston'', ''St. Louis'')"
    by (simp_all add: nb_production_def)
  then show ?thesis
    using demand_st_louis_notebook [OF assms] by simp
qed

lemma m2_notebook_lower_bound:
  assumes "feasible (model_m2 notebook) b"
  shows "1546.64 \<le> obj_value (model_m2 notebook) b"
  unfolding obj_value_m2_notebook
  using column_cost_columbia_notebook [OF assms] column_cost_indianapolis_notebook [OF assms] column_cost_lexington_notebook [OF assms] column_cost_nashville_notebook [OF assms] column_cost_richmond_notebook [OF assms] column_cost_st_louis_notebook [OF assms]
  by simp

lemma feasible_m2_nb_cheapest: "feasible (model_m2 notebook) nb_cheapest"
  by (simp add: feasible_built_m2_iff [OF build_m2_notebook] notebook_fields alphabetical_fields nb_production_def nb_distribution_def cost_rows_def nb_cost_table_def Series_def nb_cheapest_def plan_def)

lemma obj_value_m2_nb_cheapest: "obj_value (model_m2 notebook) nb_cheapest = 1546.64"
  unfolding obj_value_m2_notebook by (simp add: nb_cheapest_def plan_def)

lemma optimal_m2_nb_cheapest: "optimal (model_m2 notebook) nb_cheapest"
  unfolding optimal_def
  using feasible_m2_nb_cheapest m2_notebook_lower_bound
  by (simp add: obj_value_m2_nb_cheapest)

text \<open>An optimal solution ships at least the demand of Nashville from Birmingham.\<close>

lemma optimal_m2_notebook_birmingham_nashville:
  assumes "optimal (model_m2 notebook) b"
  shows "101 \<le> b (''Birmingham'', ''Nashville'')"
proof -
  have f: "feasible (model_m2 notebook) b"
    using assms by (simp add: optimal_def)
  have "obj_value (model_m2 notebook) b \<le> obj_value (model_m2 notebook) nb_cheapest"
    using assms feasible_m2_nb_cheapest by (simp add: optimal_def)
  then have le: "obj_value (model_m2 notebook) b \<le> 1546.64"
    by (simp add: obj_value_m2_nb_cheapest)
  have "0 \<le> b (p, ''Nashville'')" if "p \<in> set nb_production" for p
    using f that by (rule feasible_m2_notebook_nonneg) (simp add: nb_distribution_def)
  then have nn: "0 \<le> b (''Baltimore'', ''Nashville'')" "0 \<le> b (''Cleveland'', ''Nashville'')" "0 \<le> b (''Little Rock'', ''Nashville'')" "0 \<le> b (''Birmingham'', ''Nashville'')" "0 \<le> b (''Charleston'', ''Nashville'')"
    by (simp_all add: nb_production_def)
  have nash: "5.96 * b (''Baltimore'', ''Nashville'') + 4.13 * b (''Cleveland'', ''Nashville'') + 4.40 * b (''Little Rock'', ''Nashville'') + 1.53 * b (''Birmingham'', ''Nashville'') + 4.44 * b (''Charleston'', ''Nashville'') \<le> 154.53"
    using le column_cost_columbia_notebook [OF f] column_cost_indianapolis_notebook [OF f]
      column_cost_lexington_notebook [OF f] column_cost_richmond_notebook [OF f]
      column_cost_st_louis_notebook [OF f]
    unfolding obj_value_m2_notebook by simp
  show ?thesis
    using nash nn demand_nashville_notebook [OF f] by simp
qed

section \<open>The second model when the cost file is in alphabetical order\<close>

lemma build_m2_alphabetical: "build_m2 nb_alphabetical = Inr (model_m2 nb_alphabetical)"
proof -
  have "distinct (List.product (production nb_alphabetical) (distribution nb_alphabetical))"
    by (rule distinct_product) (simp_all add: notebook_fields alphabetical_fields nb_production_def nb_distribution_def)
  moreover have "length (transp_cost nb_alphabetical) = length (production nb_alphabetical) * length (distribution nb_alphabetical)"
    by (simp add: notebook_fields alphabetical_fields nb_production_def nb_distribution_def cost_rows_def nb_cost_table_def Series_def)
  moreover have "list_all (\<lambda>d. n_demand nb_alphabetical d \<noteq> None) (distribution nb_alphabetical)"
    by (simp add: notebook_fields alphabetical_fields nb_production_def nb_distribution_def cost_rows_def nb_cost_table_def Series_def)
  ultimately have "\<exists>mdl. build_m2 nb_alphabetical = Inr mdl"
    by (simp add: build_m2_Inr)
  then show ?thesis
    by (auto simp add: model_m2_def)
qed

lemma obj_value_m2_alphabetical:
  "obj_value (model_m2 nb_alphabetical) b =
     4.50 * b (''Baltimore'', ''Columbia'') + 5.09 * b (''Baltimore'', ''Indianapolis'') + 4.33 * b (''Baltimore'', ''Lexington'') + 5.96 * b (''Baltimore'', ''Nashville'') + 1.96 * b (''Baltimore'', ''Richmond'') + 7.30 * b (''Baltimore'', ''St. Louis'') +
     3.33 * b (''Cleveland'', ''Columbia'') + 4.33 * b (''Cleveland'', ''Indianapolis'') + 3.38 * b (''Cleveland'', ''Lexington'') + 1.53 * b (''Cleveland'', ''Nashville'') + 5.95 * b (''Cleveland'', ''Richmond'') + 4.01 * b (''Cleveland'', ''St. Louis'') +
     3.02 * b (''Little Rock'', ''Columbia'') + 2.61 * b (''Little Rock'', ''Indianapolis'') + 1.61 * b (''Little Rock'', ''Lexington'') + 4.44 * b (''Little Rock'', ''Nashville'') + 2.36 * b (''Little Rock'', ''Richmond'') + 4.60 * b (''Little Rock'', ''St. Louis'') +
     2.43 * b (''Birmingham'', ''Columbia'') + 2.37 * b (''Birmingham'', ''Indianapolis'') + 2.54 * b (''Birmingham'', ''Lexington'') + 4.13 * b (''Birmingham'', ''Nashville'') + 3.20 * b (''Birmingham'', ''Richmond'') + 4.88 * b (''Birmingham'', ''St. Louis'') +
     6.42 * b (''Charleston'', ''Columbia'') + 4.83 * b (''Charleston'', ''Indianapolis'') + 3.39 * b (''Charleston'', ''Lexington'') + 4.40 * b (''Charleston'', ''Nashville'') + 7.44 * b (''Charleston'', ''Richmond'') + 2.92 * b (''Charleston'', ''St. Louis'')"
  unfolding obj_value_def vars_built_m2 [OF build_m2_alphabetical]
  by (simp add: notebook_fields alphabetical_fields nb_production_def nb_distribution_def cost_rows_def nb_cost_table_def Series_def)

lemma feasible_m2_alphabetical_nonneg:
  "feasible (model_m2 nb_alphabetical) b \<Longrightarrow> p \<in> set nb_production \<Longrightarrow>
   d \<in> set nb_distribution \<Longrightarrow> 0 \<le> b (p, d)"
  by (simp add: feasible_built_m2_iff [OF build_m2_alphabetical] notebook_fields alphabetical_fields)

lemma demand_columbia_alphabetical:
  "feasible (model_m2 nb_alphabetical) b \<Longrightarrow>
   89 \<le> b (''Baltimore'', ''Columbia'') + b (''Cleveland'', ''Columbia'') + b (''Little Rock'', ''Columbia'') + b (''Birmingham'', ''Columbia'') + b (''Charleston'', ''Columbia'')"
  by (simp add: feasible_built_m2_iff [OF build_m2_alphabetical] notebook_fields alphabetical_fields nb_production_def nb_distribution_def cost_rows_def nb_cost_table_def Series_def)

lemma demand_indianapolis_alphabetical:
  "feasible (model_m2 nb_alphabetical) b \<Longrightarrow>
   95 \<le> b (''Baltimore'', ''Indianapolis'') + b (''Cleveland'', ''Indianapolis'') + b (''Little Rock'', ''Indianapolis'') + b (''Birmingham'', ''Indianapolis'') + b (''Charleston'', ''Indianapolis'')"
  by (simp add: feasible_built_m2_iff [OF build_m2_alphabetical] notebook_fields alphabetical_fields nb_production_def nb_distribution_def cost_rows_def nb_cost_table_def Series_def)

lemma demand_lexington_alphabetical:
  "feasible (model_m2 nb_alphabetical) b \<Longrightarrow>
   121 \<le> b (''Baltimore'', ''Lexington'') + b (''Cleveland'', ''Lexington'') + b (''Little Rock'', ''Lexington'') + b (''Birmingham'', ''Lexington'') + b (''Charleston'', ''Lexington'')"
  by (simp add: feasible_built_m2_iff [OF build_m2_alphabetical] notebook_fields alphabetical_fields nb_production_def nb_distribution_def cost_rows_def nb_cost_table_def Series_def)

lemma demand_nashville_alphabetical:
  "feasible (model_m2 nb_alphabetical) b \<Longrightarrow>
   101 \<le> b (''Baltimore'', ''Nashville'') + b (''Cleveland'', ''Nashville'') + b (''Little Rock'', ''Nashville'') + b (''Birmingham'', ''Nashville'') + b (''Charleston'', ''Nashville'')"
  by (simp add: feasible_built_m2_iff [OF build_m2_alphabetical] notebook_fields alphabetical_fields nb_production_def nb_distribution_def cost_rows_def nb_cost_table_def Series_def)

lemma demand_richmond_alphabetical:
  "feasible (model_m2 nb_alphabetical) b \<Longrightarrow>
   116 \<le> b (''Baltimore'', ''Richmond'') + b (''Cleveland'', ''Richmond'') + b (''Little Rock'', ''Richmond'') + b (''Birmingham'', ''Richmond'') + b (''Charleston'', ''Richmond'')"
  by (simp add: feasible_built_m2_iff [OF build_m2_alphabetical] notebook_fields alphabetical_fields nb_production_def nb_distribution_def cost_rows_def nb_cost_table_def Series_def)

lemma demand_st_louis_alphabetical:
  "feasible (model_m2 nb_alphabetical) b \<Longrightarrow>
   181 \<le> b (''Baltimore'', ''St. Louis'') + b (''Cleveland'', ''St. Louis'') + b (''Little Rock'', ''St. Louis'') + b (''Birmingham'', ''St. Louis'') + b (''Charleston'', ''St. Louis'')"
  by (simp add: feasible_built_m2_iff [OF build_m2_alphabetical] notebook_fields alphabetical_fields nb_production_def nb_distribution_def cost_rows_def nb_cost_table_def Series_def)

text \<open>The cost of serving one location is at least its demand at the least coefficient.\<close>

lemma column_cost_columbia_alphabetical:
  assumes "feasible (model_m2 nb_alphabetical) b"
  shows "216.27 \<le> 4.50 * b (''Baltimore'', ''Columbia'') + 3.33 * b (''Cleveland'', ''Columbia'') + 3.02 * b (''Little Rock'', ''Columbia'') + 2.43 * b (''Birmingham'', ''Columbia'') + 6.42 * b (''Charleston'', ''Columbia'')"
proof -
  have "0 \<le> b (p, ''Columbia'')" if "p \<in> set nb_production" for p
    using assms that by (rule feasible_m2_alphabetical_nonneg) (simp add: nb_distribution_def)
  then have "0 \<le> b (''Baltimore'', ''Columbia'')" "0 \<le> b (''Cleveland'', ''Columbia'')" "0 \<le> b (''Little Rock'', ''Columbia'')" "0 \<le> b (''Birmingham'', ''Columbia'')" "0 \<le> b (''Charleston'', ''Columbia'')"
    by (simp_all add: nb_production_def)
  then show ?thesis
    using demand_columbia_alphabetical [OF assms] by simp
qed

lemma column_cost_indianapolis_alphabetical:
  assumes "feasible (model_m2 nb_alphabetical) b"
  shows "225.15 \<le> 5.09 * b (''Baltimore'', ''Indianapolis'') + 4.33 * b (''Cleveland'', ''Indianapolis'') + 2.61 * b (''Little Rock'', ''Indianapolis'') + 2.37 * b (''Birmingham'', ''Indianapolis'') + 4.83 * b (''Charleston'', ''Indianapolis'')"
proof -
  have "0 \<le> b (p, ''Indianapolis'')" if "p \<in> set nb_production" for p
    using assms that by (rule feasible_m2_alphabetical_nonneg) (simp add: nb_distribution_def)
  then have "0 \<le> b (''Baltimore'', ''Indianapolis'')" "0 \<le> b (''Cleveland'', ''Indianapolis'')" "0 \<le> b (''Little Rock'', ''Indianapolis'')" "0 \<le> b (''Birmingham'', ''Indianapolis'')" "0 \<le> b (''Charleston'', ''Indianapolis'')"
    by (simp_all add: nb_production_def)
  then show ?thesis
    using demand_indianapolis_alphabetical [OF assms] by simp
qed

lemma column_cost_lexington_alphabetical:
  assumes "feasible (model_m2 nb_alphabetical) b"
  shows "194.81 \<le> 4.33 * b (''Baltimore'', ''Lexington'') + 3.38 * b (''Cleveland'', ''Lexington'') + 1.61 * b (''Little Rock'', ''Lexington'') + 2.54 * b (''Birmingham'', ''Lexington'') + 3.39 * b (''Charleston'', ''Lexington'')"
proof -
  have "0 \<le> b (p, ''Lexington'')" if "p \<in> set nb_production" for p
    using assms that by (rule feasible_m2_alphabetical_nonneg) (simp add: nb_distribution_def)
  then have "0 \<le> b (''Baltimore'', ''Lexington'')" "0 \<le> b (''Cleveland'', ''Lexington'')" "0 \<le> b (''Little Rock'', ''Lexington'')" "0 \<le> b (''Birmingham'', ''Lexington'')" "0 \<le> b (''Charleston'', ''Lexington'')"
    by (simp_all add: nb_production_def)
  then show ?thesis
    using demand_lexington_alphabetical [OF assms] by simp
qed

lemma column_cost_nashville_alphabetical:
  assumes "feasible (model_m2 nb_alphabetical) b"
  shows "154.53 \<le> 5.96 * b (''Baltimore'', ''Nashville'') + 1.53 * b (''Cleveland'', ''Nashville'') + 4.44 * b (''Little Rock'', ''Nashville'') + 4.13 * b (''Birmingham'', ''Nashville'') + 4.40 * b (''Charleston'', ''Nashville'')"
proof -
  have "0 \<le> b (p, ''Nashville'')" if "p \<in> set nb_production" for p
    using assms that by (rule feasible_m2_alphabetical_nonneg) (simp add: nb_distribution_def)
  then have "0 \<le> b (''Baltimore'', ''Nashville'')" "0 \<le> b (''Cleveland'', ''Nashville'')" "0 \<le> b (''Little Rock'', ''Nashville'')" "0 \<le> b (''Birmingham'', ''Nashville'')" "0 \<le> b (''Charleston'', ''Nashville'')"
    by (simp_all add: nb_production_def)
  then show ?thesis
    using demand_nashville_alphabetical [OF assms] by simp
qed

lemma column_cost_richmond_alphabetical:
  assumes "feasible (model_m2 nb_alphabetical) b"
  shows "227.36 \<le> 1.96 * b (''Baltimore'', ''Richmond'') + 5.95 * b (''Cleveland'', ''Richmond'') + 2.36 * b (''Little Rock'', ''Richmond'') + 3.20 * b (''Birmingham'', ''Richmond'') + 7.44 * b (''Charleston'', ''Richmond'')"
proof -
  have "0 \<le> b (p, ''Richmond'')" if "p \<in> set nb_production" for p
    using assms that by (rule feasible_m2_alphabetical_nonneg) (simp add: nb_distribution_def)
  then have "0 \<le> b (''Baltimore'', ''Richmond'')" "0 \<le> b (''Cleveland'', ''Richmond'')" "0 \<le> b (''Little Rock'', ''Richmond'')" "0 \<le> b (''Birmingham'', ''Richmond'')" "0 \<le> b (''Charleston'', ''Richmond'')"
    by (simp_all add: nb_production_def)
  then show ?thesis
    using demand_richmond_alphabetical [OF assms] by simp
qed

lemma column_cost_st_louis_alphabetical:
  assumes "feasible (model_m2 nb_alphabetical) b"
  shows "528.52 \<le> 7.30 * b (''Baltimore'', ''St. Louis'') + 4.01 * b (''Cleveland'', ''St. Louis'') + 4.60 * b (''Little Rock'', ''St. Louis'') + 4.88 * b (''Birmingham'', ''St. Louis'') + 2.92 * b (''Charleston'', ''St. Louis'')"
proof -
  have "0 \<le> b (p, ''St. Louis'')" if "p \<in> set nb_production" for p
    using assms that by (rule feasible_m2_alphabetical_nonneg) (simp add: nb_distribution_def)
  then have "0 \<le> b (''Baltimore'', ''St. Louis'')" "0 \<le> b (''Cleveland'', ''St. Louis'')" "0 \<le> b (''Little Rock'', ''St. Louis'')" "0 \<le> b (''Birmingham'', ''St. Louis'')" "0 \<le> b (''Charleston'', ''St. Louis'')"
    by (simp_all add: nb_production_def)
  then show ?thesis
    using demand_st_louis_alphabetical [OF assms] by simp
qed

lemma m2_alphabetical_lower_bound:
  assumes "feasible (model_m2 nb_alphabetical) b"
  shows "1546.64 \<le> obj_value (model_m2 nb_alphabetical) b"
  unfolding obj_value_m2_alphabetical
  using column_cost_columbia_alphabetical [OF assms] column_cost_indianapolis_alphabetical [OF assms] column_cost_lexington_alphabetical [OF assms] column_cost_nashville_alphabetical [OF assms] column_cost_richmond_alphabetical [OF assms] column_cost_st_louis_alphabetical [OF assms]
  by simp

lemma feasible_m2_nb_cheapest_alphabetical: "feasible (model_m2 nb_alphabetical) nb_cheapest_alphabetical"
  by (simp add: feasible_built_m2_iff [OF build_m2_alphabetical] notebook_fields alphabetical_fields nb_production_def nb_distribution_def cost_rows_def nb_cost_table_def Series_def nb_cheapest_alphabetical_def plan_def)

lemma obj_value_m2_nb_cheapest_alphabetical: "obj_value (model_m2 nb_alphabetical) nb_cheapest_alphabetical = 1546.64"
  unfolding obj_value_m2_alphabetical by (simp add: nb_cheapest_alphabetical_def plan_def)

lemma optimal_m2_nb_cheapest_alphabetical: "optimal (model_m2 nb_alphabetical) nb_cheapest_alphabetical"
  unfolding optimal_def
  using feasible_m2_nb_cheapest_alphabetical m2_alphabetical_lower_bound
  by (simp add: obj_value_m2_nb_cheapest_alphabetical)

text \<open>
  In that order too, every optimal solution costs 1546.64 and ships more than
  Birmingham's capacity from Birmingham, whose variables then carry the costs of
  Cleveland.
\<close>

lemma optimal_m2_alphabetical_value:
  assumes "optimal (model_m2 nb_alphabetical) b"
  shows "obj_value (model_m2 nb_alphabetical) b = 1546.64"
proof -
  have f: "feasible (model_m2 nb_alphabetical) b"
    using assms by (simp add: optimal_def)
  have "obj_value (model_m2 nb_alphabetical) b
          \<le> obj_value (model_m2 nb_alphabetical) nb_cheapest_alphabetical"
    using assms feasible_m2_nb_cheapest_alphabetical by (simp add: optimal_def)
  then have "obj_value (model_m2 nb_alphabetical) b \<le> 1546.64"
    by (simp add: obj_value_m2_nb_cheapest_alphabetical)
  with m2_alphabetical_lower_bound [OF f] show ?thesis
    by simp
qed

lemma optimal_m2_alphabetical_birmingham_columbia:
  assumes "optimal (model_m2 nb_alphabetical) b"
  shows "89 \<le> b (''Birmingham'', ''Columbia'')"
proof -
  have f: "feasible (model_m2 nb_alphabetical) b"
    using assms by (simp add: optimal_def)
  have le: "obj_value (model_m2 nb_alphabetical) b \<le> 1546.64"
    using optimal_m2_alphabetical_value [OF assms] by simp
  have "0 \<le> b (p, ''Columbia'')" if "p \<in> set nb_production" for p
    using f that by (rule feasible_m2_alphabetical_nonneg) (simp add: nb_distribution_def)
  then have nn: "0 \<le> b (''Baltimore'', ''Columbia'')" "0 \<le> b (''Cleveland'', ''Columbia'')" "0 \<le> b (''Little Rock'', ''Columbia'')" "0 \<le> b (''Birmingham'', ''Columbia'')" "0 \<le> b (''Charleston'', ''Columbia'')"
    by (simp_all add: nb_production_def)
  have col: "4.50 * b (''Baltimore'', ''Columbia'') + 3.33 * b (''Cleveland'', ''Columbia'') + 3.02 * b (''Little Rock'', ''Columbia'') + 2.43 * b (''Birmingham'', ''Columbia'') + 6.42 * b (''Charleston'', ''Columbia'') \<le> 216.27"
    using le column_cost_indianapolis_alphabetical [OF f] column_cost_lexington_alphabetical [OF f]
      column_cost_nashville_alphabetical [OF f] column_cost_richmond_alphabetical [OF f]
      column_cost_st_louis_alphabetical [OF f]
    unfolding obj_value_m2_alphabetical by simp
  show ?thesis
    using col nn demand_columbia_alphabetical [OF f] by simp
qed

lemma m2_alphabetical_optimum_exceeds_birmingham_capacity:
  assumes "optimal (model_m2 nb_alphabetical) b"
  shows "80 < sum_list (map (\<lambda>d. b (''Birmingham'', d)) (distribution nb_alphabetical))"
proof -
  have f: "feasible (model_m2 nb_alphabetical) b"
    using assms by (simp add: optimal_def)
  have "0 \<le> b (''Birmingham'', d)" if "d \<in> set nb_distribution" for d
    using f _ that by (rule feasible_m2_alphabetical_nonneg) (simp add: nb_production_def)
  then have "0 \<le> b (''Birmingham'', ''Indianapolis'')" "0 \<le> b (''Birmingham'', ''Lexington'')"
    "0 \<le> b (''Birmingham'', ''Nashville'')" "0 \<le> b (''Birmingham'', ''Richmond'')"
    "0 \<le> b (''Birmingham'', ''St. Louis'')"
    by (simp_all add: nb_distribution_def)
  then show ?thesis
    using optimal_m2_alphabetical_birmingham_columbia [OF assms]
    by (simp add: alphabetical_fields nb_distribution_def)
qed

section \<open>The second model: demand is met\<close>

text \<open>
  C2: whenever the cell builds \<open>m2\<close>, in every solution of \<open>m2\<close> (every feasible
  assignment, so every one the solver returns) each shipment \<open>x[p,d]\<close> is non-negative,
  and for each distribution location the shipments summed over the production
  facilities reach its demand.
\<close>

theorem m2_shipments_nonneg_meet_demand:
  assumes "build_m2 inp = Inr mdl" and "feasible mdl a"
  shows "(\<forall>p\<in>set (production inp). \<forall>d\<in>set (distribution inp). 0 \<le> a (p, d)) \<and>
         (\<forall>d\<in>set (distribution inp). \<exists>v. n_demand inp d = Some v \<and>
            v \<le> sum_list (map (\<lambda>p. a (p, d)) (production inp)))"
proof -
  have "\<forall>d\<in>set (distribution inp). n_demand inp d \<noteq> None"
    using assms(1) by (simp add: build_m2_Inr list_all_iff)
  then show ?thesis
    using assms(2) unfolding feasible_built_m2_iff [OF assms(1)] by fastforce
qed

theorem m2_shipments_nonneg_meet_demand_witness:
  "build_m2 notebook = Inr (model_m2 notebook) \<and>
   feasible (model_m2 notebook) nb_cheapest \<and>
   0 \<le> nb_cheapest (''Baltimore'', ''Nashville'') \<and>
   (\<exists>v. n_demand notebook ''Nashville'' = Some v \<and>
      v \<le> sum_list (map (\<lambda>p. nb_cheapest (p, ''Nashville'')) (production notebook)))"
proof -
  note r = m2_shipments_nonneg_meet_demand [OF build_m2_notebook feasible_m2_nb_cheapest]
  have p: "''Baltimore'' \<in> set (production notebook)"
    by (simp add: notebook_fields nb_production_def)
  have d: "''Nashville'' \<in> set (distribution notebook)"
    by (simp add: notebook_fields nb_distribution_def)
  from r p d have "0 \<le> nb_cheapest (''Baltimore'', ''Nashville'')"
    by blast
  moreover from r d have "\<exists>v. n_demand notebook ''Nashville'' = Some v \<and>
      v \<le> sum_list (map (\<lambda>p. nb_cheapest (p, ''Nashville'')) (production notebook))"
    by blast
  ultimately show ?thesis
    using build_m2_notebook feasible_m2_nb_cheapest by blast
qed

section \<open>The reported objective and the extracted solution\<close>

lemma sum_list_filter_pos:
  "(\<And>k. k \<in> set ks \<Longrightarrow> 0 \<le> (a k :: real)) \<Longrightarrow>
   sum_list (map (\<lambda>k. c k * a k) (filter (\<lambda>k. a k > 0) ks)) = sum_list (map (\<lambda>k. c k * a k) ks)"
  by (induction ks) (auto simp: order.order_iff_strict)

lemma recomputed_shipped_rows:
  assumes "\<And>k c. (k, c) \<in> set rows \<Longrightarrow> k \<in> K \<and> 0 \<le> a k"
  shows "recomputed_cost
           (shipped (map (\<lambda>(k, c). (k, c, if k \<in> K then Some (a k) else None)) rows)) =
         sum_list (map (\<lambda>(k, c). c * a k) rows)"
  using assms
proof (induction rows)
  case Nil
  then show ?case
    by (simp add: recomputed_cost_def shipped_def map_filter_simps)
next
  case (Cons r rows)
  obtain k c where r: "r = (k, c)"
    by (cases r)
  have kc: "k \<in> K \<and> 0 \<le> a k"
    using Cons.prems [of k c] by (simp add: r)
  have "recomputed_cost
           (shipped (map (\<lambda>(k, c). (k, c, if k \<in> K then Some (a k) else None)) rows)) =
         sum_list (map (\<lambda>(k, c). c * a k) rows)"
    using Cons.prems by (intro Cons.IH) auto
  then show ?case
    using kc by (auto simp add: r recomputed_cost_def shipped_def map_filter_simps)
qed

text \<open>
  When the rows of the cost Series carry the labels in the order of the variables, the
  objective value the solver reports is the cost recomputed from the rows of \<open>sol2\<close>
  with a positive shipment.
\<close>

lemma objective_roundtrip_ordered:
  assumes "build_m2 inp = Inr mdl" and "feasible mdl a"
    and "map fst (transp_cost inp) = List.product (production inp) (distribution inp)"
  shows "obj_value mdl a = recomputed_cost (shipped (sol2 inp a))"
proof -
  have nn: "\<And>k. k \<in> set (List.product (production inp) (distribution inp)) \<Longrightarrow> 0 \<le> a k"
    using assms(2) unfolding feasible_built_m2_iff [OF assms(1)] by auto
  have "zip (List.product (production inp) (distribution inp)) (map snd (transp_cost inp)) =
        transp_cost inp"
    using assms(3) zip_map_fst_snd [of "transp_cost inp"] by simp
  then have "obj_value mdl a = sum_list (map (\<lambda>(k, c). c * a k) (transp_cost inp))"
    by (simp add: obj_value_def vars_built_m2 [OF assms(1)] comp_def case_prod_unfold)
  moreover have "recomputed_cost (shipped (sol2 inp a)) =
      sum_list (map (\<lambda>(k, c). c * a k) (transp_cost inp))"
    unfolding sol2_def
  proof (rule recomputed_shipped_rows)
    fix k c
    assume "(k, c) \<in> set (transp_cost inp)"
    then have "k \<in> set (map fst (transp_cost inp))"
      by force
    then have "k \<in> set (List.product (production inp) (distribution inp))"
      by (simp only: assms(3))
    then show "k \<in> set (List.product (production inp) (distribution inp)) \<and> 0 \<le> a k"
      using nn by blast
  qed
  ultimately show ?thesis
    by simp
qed

lemma recomputed_nb_cheapest_alphabetical:
  "recomputed_cost (shipped (sol2 nb_alphabetical nb_cheapest_alphabetical)) = 2595"
  by (simp add: recomputed_cost_def shipped_def sol2_def map_filter_simps alphabetical_fields
      cost_rows_def nb_cost_table_def nb_production_def nb_distribution_def
      nb_cheapest_alphabetical_def plan_def)

text \<open>
  C8: the claim equates the reported objective value with the cost recomputed from the
  extracted solution. \<^verbatim>\<open>addVars\<close> takes \<^verbatim>\<open>obj = transp_cost\<close> by position while
  \<open>sol2\<close> pairs cost and shipment by label, so with the notebook's data and the rows of
  the cost file in alphabetical order the optimal solution is reported at 1546.64, and
  the cost recomputed from its extracted rows is 2595.
\<close>

theorem reported_objective_differs_from_recomputed:
  "build_m2 nb_alphabetical = Inr (model_m2 nb_alphabetical) \<and>
   optimal (model_m2 nb_alphabetical) nb_cheapest_alphabetical \<and>
   obj_value (model_m2 nb_alphabetical) nb_cheapest_alphabetical = 1546.64 \<and>
   recomputed_cost (shipped (sol2 nb_alphabetical nb_cheapest_alphabetical)) = 2595"
  using build_m2_alphabetical optimal_m2_nb_cheapest_alphabetical
    obj_value_m2_nb_cheapest_alphabetical recomputed_nb_cheapest_alphabetical
  by blast

theorem reported_objective_differs_from_recomputed_witness:
  "feasible (model_m2 nb_alphabetical) nb_cheapest_alphabetical \<and>
   obj_value (model_m2 nb_alphabetical) nb_cheapest_alphabetical
     < recomputed_cost (shipped (sol2 nb_alphabetical nb_cheapest_alphabetical))"
  using reported_objective_differs_from_recomputed
  by (simp add: optimal_def)

section \<open>What the second model leaves out\<close>

lemma max_prod_birmingham: "max_prod notebook ''Birmingham'' = Some 80"
  by (simp add: notebook_fields Series_def nb_production_def)

text \<open>
  C3: the claim bounds each facility's total shipment by its capacity. The notebook's
  \<open>m2\<close> holds no production limit, and on the notebook's own data every optimal
  solution of \<open>m2\<close> ships more from Birmingham than Birmingham's capacity of 80: it
  ships the whole demand of Nashville, 101, from there.
\<close>

theorem m2_optimum_exceeds_birmingham_capacity:
  assumes "build_m2 notebook = Inr mdl" and "optimal mdl b"
  shows "max_prod notebook ''Birmingham'' = Some 80 \<and>
         80 < sum_list (map (\<lambda>d. b (''Birmingham'', d)) (distribution notebook))"
proof -
  have mdl: "mdl = model_m2 notebook"
    using assms(1) build_m2_notebook by simp
  have opt: "optimal (model_m2 notebook) b"
    using assms(2) by (simp add: mdl)
  then have f: "feasible (model_m2 notebook) b"
    by (simp add: optimal_def)
  have "0 \<le> b (''Birmingham'', d)" if "d \<in> set nb_distribution" for d
    using f _ that by (rule feasible_m2_notebook_nonneg) (simp add: nb_production_def)
  then have "0 \<le> b (''Birmingham'', ''Columbia'')" "0 \<le> b (''Birmingham'', ''Indianapolis'')"
    "0 \<le> b (''Birmingham'', ''Lexington'')" "0 \<le> b (''Birmingham'', ''Richmond'')"
    "0 \<le> b (''Birmingham'', ''St. Louis'')"
    by (simp_all add: nb_distribution_def)
  then have "80 < sum_list (map (\<lambda>d. b (''Birmingham'', d)) (distribution notebook))"
    using optimal_m2_notebook_birmingham_nashville [OF opt]
    by (simp add: notebook_fields nb_distribution_def)
  then show ?thesis
    using max_prod_birmingham by simp
qed

theorem m2_optimum_exceeds_birmingham_capacity_witness:
  "build_m2 notebook = Inr (model_m2 notebook) \<and>
   optimal (model_m2 notebook) nb_cheapest \<and>
   max_prod notebook ''Birmingham'' = Some 80 \<and>
   80 < sum_list (map (\<lambda>d. nb_cheapest (''Birmingham'', d)) (distribution notebook))"
  using m2_optimum_exceeds_birmingham_capacity [OF build_m2_notebook optimal_m2_nb_cheapest]
    build_m2_notebook optimal_m2_nb_cheapest
  by blast

text \<open>
  C4: the claim asks for expansion choice variables and the constraint that their sum
  is at most 1. The notebook's \<open>m2\<close> has no binary variable and no \<open>\<le>\<close> constraint,
  whatever the data: the cells that should add \<open>xprod\<close> and the constraint are empty.
\<close>

theorem m2_no_choice_variable_no_upper_constraint:
  assumes "build_m2 inp = Inr mdl"
  shows "filter (\<lambda>v. vtype v = BINARY) (vars mdl) = [] \<and>
         filter (\<lambda>c. csense c = LESS_EQUAL) (constrs mdl) = []"
  by (simp add: vars_built_m2 [OF assms] constrs_built_m2 [OF assms] filter_map comp_def
      case_prod_unfold)

theorem m2_no_choice_variable_no_upper_constraint_witness:
  "build_m2 notebook = Inr (model_m2 notebook) \<and>
   filter (\<lambda>v. vtype v = BINARY) (vars (model_m2 notebook)) = [] \<and>
   filter (\<lambda>c. csense c = LESS_EQUAL) (constrs (model_m2 notebook)) = []"
  using m2_no_choice_variable_no_upper_constraint [OF build_m2_notebook] build_m2_notebook
  by blast

text \<open>
  C6: the claim gives Birmingham the bounds \<open>max + \<Sum> increment \<times> choice\<close> and the
  objective an activation cost. On the notebook's data \<open>m2\<close> has the 30 shipment
  variables and the 6 demand constraints only, and the plan that ships all 703 units
  from Birmingham is feasible, above the capacity of 80 with the larger increment of 50.
\<close>

theorem m2_birmingham_unbounded_no_activation_cost:
  "build_m2 notebook = Inr (model_m2 notebook) \<and>
   feasible (model_m2 notebook) nb_birmingham_all \<and>
   sum_list (map (\<lambda>d. nb_birmingham_all (''Birmingham'', d)) (distribution notebook)) = 703 \<and>
   map_option (\<lambda>c. c + 50) (max_prod notebook ''Birmingham'') = Some 130 \<and>
   length (vars (model_m2 notebook)) = 30 \<and>
   length (constrs (model_m2 notebook)) = 6"
proof -
  have "feasible (model_m2 notebook) nb_birmingham_all"
    by (simp add: feasible_built_m2_iff [OF build_m2_notebook] notebook_fields
        nb_production_def nb_distribution_def Series_def nb_birmingham_all_def plan_def)
  moreover have
    "sum_list (map (\<lambda>d. nb_birmingham_all (''Birmingham'', d)) (distribution notebook)) = 703"
    by (simp add: notebook_fields nb_distribution_def nb_birmingham_all_def plan_def)
  moreover have "length (vars (model_m2 notebook)) = 30"
    by (simp add: vars_built_m2 [OF build_m2_notebook] notebook_fields
        nb_production_def nb_distribution_def cost_rows_def nb_cost_table_def)
  moreover have "length (constrs (model_m2 notebook)) = 6"
    by (simp add: constrs_built_m2 [OF build_m2_notebook] notebook_fields nb_distribution_def)
  ultimately show ?thesis
    using build_m2_notebook by (simp add: max_prod_birmingham)
qed

text \<open>
  C9: the claim puts the optimal value of the extended model at or below that of the
  base model. On the notebook's data the optimal value of \<open>m\<close> is 0 and the optimal
  value of \<open>m2\<close> is 1546.64, so the second is strictly above the first.
\<close>

theorem m2_optimum_above_m_optimum:
  assumes "optimal (model_m notebook) a"
    and "build_m2 notebook = Inr mdl" and "optimal mdl b"
  shows "obj_value (model_m notebook) a = 0 \<and> obj_value mdl b = 1546.64 \<and>
         obj_value (model_m notebook) a < obj_value mdl b"
proof -
  have mdl: "mdl = model_m2 notebook"
    using assms(2) build_m2_notebook by simp
  have opt: "optimal (model_m2 notebook) b"
    using assms(3) by (simp add: mdl)
  then have f: "feasible (model_m2 notebook) b"
    by (simp add: optimal_def)
  have "obj_value (model_m2 notebook) b \<le> obj_value (model_m2 notebook) nb_cheapest"
    using opt feasible_m2_nb_cheapest by (simp add: optimal_def)
  then have "obj_value (model_m2 notebook) b \<le> 1546.64"
    by (simp add: obj_value_m2_nb_cheapest)
  with m2_notebook_lower_bound [OF f] have "obj_value (model_m2 notebook) b = 1546.64"
    by simp
  then show ?thesis
    by (simp add: obj_value_model_m mdl)
qed

theorem m2_optimum_above_m_optimum_witness:
  "optimal (model_m notebook) nb_cheapest \<and>
   build_m2 notebook = Inr (model_m2 notebook) \<and>
   optimal (model_m2 notebook) nb_cheapest \<and>
   obj_value (model_m notebook) nb_cheapest = 0 \<and>
   obj_value (model_m2 notebook) nb_cheapest = 1546.64 \<and>
   obj_value (model_m notebook) nb_cheapest < obj_value (model_m2 notebook) nb_cheapest"
  using m2_optimum_above_m_optimum [OF optimal_model_m build_m2_notebook optimal_m2_nb_cheapest]
    optimal_model_m build_m2_notebook optimal_m2_nb_cheapest
  by blast

section \<open>No validation of the data\<close>





section \<open>The scenario of the notebook is feasible\<close>

lemma satisfies_demand_met:
  "list_all (satisfies a) (demand_met inp) \<longleftrightarrow>
   (\<forall>d\<in>set (distribution inp).
      demand inp d \<le> sum_list (map (\<lambda>p. a (p, d)) (production inp)))"
  by (simp add: demand_met_def list_all_iff satisfies_def eval_expr_quicksum comp_def)

lemma satisfies_can_produce:
  "list_all (satisfies a) (can_produce inp) \<longleftrightarrow>
   (\<forall>p\<in>set (production inp).
      sum_list (map (\<lambda>d. a (p, d)) (distribution inp)) \<le> capacity inp p)"
  by (simp add: can_produce_def list_all_iff satisfies_def eval_expr_quicksum comp_def)

lemma satisfies_must_produce:
  "list_all (satisfies a) (must_produce inp) \<longleftrightarrow>
   (\<forall>p\<in>set (production inp).
      frac inp * capacity inp p \<le> sum_list (map (\<lambda>d. a (p, d)) (distribution inp)))"
  by (simp add: must_produce_def list_all_iff satisfies_def eval_expr_quicksum comp_def)

lemma in_bounds_shipment_vars:
  "list_all (in_bounds a) (shipment_vars inp) \<longleftrightarrow>
   (\<forall>p\<in>set (production inp). \<forall>d\<in>set (distribution inp). 0 \<le> a (p, d))"
  by (auto simp add: shipment_vars_def list_all_iff in_bounds_def)

text \<open>
  Feasibility in the base formulation, spelled out: non-negative shipments, every
  demand met, every facility between \<open>frac \<times> capacity\<close> and its capacity.
\<close>

lemma feasible_build_base_model_iff:
  "feasible (build_base_model inp) a \<longleftrightarrow>
     (\<forall>p\<in>set (production inp). \<forall>d\<in>set (distribution inp). 0 \<le> a (p, d)) \<and>
     (\<forall>d\<in>set (distribution inp).
        demand inp d \<le> sum_list (map (\<lambda>p. a (p, d)) (production inp))) \<and>
     (\<forall>p\<in>set (production inp).
        sum_list (map (\<lambda>d. a (p, d)) (distribution inp)) \<le> capacity inp p) \<and>
     (\<forall>p\<in>set (production inp).
        frac inp * capacity inp p \<le> sum_list (map (\<lambda>d. a (p, d)) (distribution inp)))"
  by (simp add: feasible_def build_base_model_def in_bounds_shipment_vars
      satisfies_demand_met satisfies_can_produce satisfies_must_produce)

lemma feasible_base_nb_within_limits: "feasible (build_base_model notebook) nb_within_limits"
  by (simp add: feasible_build_base_model_iff capacity_def demand_def notebook_fields
      nb_production_def nb_distribution_def Series_def nb_within_limits_def plan_def)

text \<open>
  C7: with capacities 180, 200, 140, 80, 180, demands 89, 95, 121, 101, 116, 181 and
  fraction 0.75, the total demand is 703, the total capacity 780 and the total minimum
  production 585, and the base formulation (demand and both production limits) has a
  feasible assignment of non-negative shipments.
\<close>

theorem notebook_scenario_feasible:
  "sum_list (map (demand notebook) (distribution notebook)) = 703 \<and>
   sum_list (map (capacity notebook) (production notebook)) = 780 \<and>
   frac notebook * sum_list (map (capacity notebook) (production notebook)) = 585 \<and>
   (\<exists>a. feasible (build_base_model notebook) a)"
proof -
  have "\<exists>a. feasible (build_base_model notebook) a"
    using feasible_base_nb_within_limits by blast
  then show ?thesis
    by (simp add: capacity_def demand_def notebook_fields nb_production_def
        nb_distribution_def Series_def)
qed

end
